theory Spec2Isabelle
  imports Complex_Main
begin

section \<open>The speech client's listener (mycroft/client/speech/listener.py)\<close>

text \<open>
  The listener has a producer thread that puts what the recognizer hears on a queue, a
  consumer thread that takes buffers off the queue and transcribes them, and the
  \<open>RecognizerLoop\<close> that starts and stops both and counts mute requests.
  Every call the code makes on a collaborator (the logger, the event emitter, the session
  manager, the metrics aggregator, the speech-to-text engine, the wake-up recognizer, the
  microphone) is written to a trace, in the order of the calls, so that
  ``emits exactly one event'' and ``never invokes the backend'' are statements about the
  trace.
\<close>

subsection \<open>Data\<close>

text \<open>\<open>sr.AudioData\<close>: the raw bytes with the sample rate and the sample width.\<close>

record audio_data =
  frame_data :: string
  sample_rate :: int
  sample_width :: int

text \<open>The values of an event's payload dictionary, and the dictionary itself.\<close>

datatype pval = Str string | StrList "string list"

type_synonym payload = "(string \<times> pval) list"

text \<open>
  The exceptions \<open>transcribe\<close> tells apart, in the order of its \<open>except\<close> clauses:
  \<open>sr.RequestError\<close>, requests' \<open>ConnectionError\<close>, requests' \<open>HTTPError\<close> with the
  status code of its response, and everything else under \<open>Exception\<close>. Each carries the
  text that \<open>str(e)\<close> gives.
\<close>

datatype exn =
    RequestError string
  | ConnectionError string
  | HTTPError int string
  | ZeroDivisionError string
  | OtherError string

fun exn_str :: "exn \<Rightarrow> string" where
  "exn_str (RequestError m) = m"
| "exn_str (ConnectionError m) = m"
| "exn_str (HTTPError code m) = m"
| "exn_str (ZeroDivisionError m) = m"
| "exn_str (OtherError m) = m"

datatype effect =
    LOG_debug string
  | LOG_info string
  | LOG_warning string
  | LOG_error string
  | Print string
  | Emit string "payload option"
  | SessionManager_touch
  | Metrics_increment string
  | Metrics_attr string "string list"
  | STT_execute audio_data
  | Found_wake_word string
  | Mic_mute
  | Mic_unmute

text \<open>\<open>RecognizerLoopState\<close>: the two flags both threads read.\<close>

record recognizer_loop_state =
  running :: bool
  sleeping :: bool

text \<open>
  What the consumer is given and does not own: the speech-to-text engine (\<open>stt.execute\<close>
  returns the text or raises; \<open>stt.lang\<close>), the wake-up recognizer (\<open>found_wake_word\<close>
  returns a truth value or raises), the wake word recognizer's \<open>key_phrase\<close>,
  \<open>mycroft.dialog.get\<close>, and the id of the session \<open>SessionManager.get()\<close> returns.
\<close>

record collaborators =
  stt_execute :: "audio_data \<Rightarrow> exn + string"
  stt_lang :: string
  found_wake_word :: "string \<Rightarrow> exn + bool"
  key_phrase :: string
  dialog_get :: "string \<Rightarrow> string \<Rightarrow> string"
  session_id :: string

text \<open>
  What every object of the listener holds: the shared \<open>state\<close>, and the trace of the
  calls made so far. \<open>AudioConsumer\<close> adds the pending hot word \<open>word\<close>.
\<close>

record actor =
  state :: recognizer_loop_state
  trace :: "effect list"

record audio_consumer = actor +
  word :: string

definition call :: "effect \<Rightarrow> 'a actor_scheme \<Rightarrow> 'a actor_scheme" where
  "call e c = c\<lparr>trace := trace c @ [e]\<rparr>"

definition emit :: "string \<Rightarrow> payload option \<Rightarrow> 'a actor_scheme \<Rightarrow> 'a actor_scheme" where
  "emit name p c = call (Emit name p) c"

subsection \<open>Strings\<close>

text \<open>
  \<open>str.lower\<close> and \<open>str.strip\<close> of a Python 2 byte string in the C locale: the letters
  A to Z are mapped to a to z, and the six ASCII whitespace bytes are removed at both ends.
\<close>

definition lower_char :: "char \<Rightarrow> char" where
  "lower_char ch =
     (case map_of (zip ''ABCDEFGHIJKLMNOPQRSTUVWXYZ'' ''abcdefghijklmnopqrstuvwxyz'') ch of
        Some l \<Rightarrow> l
      | None \<Rightarrow> ch)"

definition lower :: "string \<Rightarrow> string" where
  "lower s = map lower_char s"

definition is_space :: "char \<Rightarrow> bool" where
  "is_space ch = (ch \<in> set [CHR '' '', CHR 0x09, CHR 0x0A, CHR 0x0B, CHR 0x0C, CHR 0x0D])"

definition strip :: "string \<Rightarrow> string" where
  "strip s = rev (dropWhile is_space (rev (dropWhile is_space s)))"

subsection \<open>AudioConsumer\<close>

definition MIN_AUDIO_SIZE :: rat where
  "MIN_AUDIO_SIZE = 1 / 2"

text \<open>
  \<open>__speak\<close>: a \<open>speak\<close> event with the utterance and the session id.
\<close>

definition speak :: "collaborators \<Rightarrow> string \<Rightarrow> audio_consumer \<Rightarrow> audio_consumer" where
  "speak env utterance c =
     (let payload = [(''utterance'', Str utterance), (''session'', Str (session_id env))]
      in emit ''speak'' (Some payload) c)"

text \<open>
  \<open>_audio_length\<close>: \<open>float(len(audio.frame_data)) / (audio.sample_rate * audio.sample_width)\<close>.
  The quotient is taken exactly, as a rational; Python raises \<open>ZeroDivisionError\<close> when
  the product is zero.
\<close>

definition audio_length :: "audio_data \<Rightarrow> exn + rat" where
  "audio_length audio =
     (let d = sample_rate audio * sample_width audio
      in if d = 0 then Inl (ZeroDivisionError ''float division by zero'')
         else Inr (of_nat (length (frame_data audio)) / of_int d))"

text \<open>
  \<open>transcribe\<close>: the engine is called once inside the \<open>try\<close>; each \<open>except\<close> clause is a
  branch. An \<open>HTTPError\<close> whose status is not 401 is caught by its clause and nothing is
  done for it. \<open>if text:\<close> fails on \<open>None\<close> and on the empty string. The function
  returns \<open>text\<close>.
\<close>

definition transcribe ::
    "collaborators \<Rightarrow> audio_data \<Rightarrow> bool \<Rightarrow> audio_consumer \<Rightarrow> string option \<times> audio_consumer" where
  "transcribe env audio emit_flag c0 =
     (let c = call (LOG_debug ''Transcribing audio'') c0;
          c = call (STT_execute audio) c;
          (text, c) =
            (case stt_execute env audio of
               Inr s \<Rightarrow>
                 (let text = strip (lower s)
                  in (Some text, call (LOG_debug (''STT: '' @ text)) c))
             | Inl (RequestError m) \<Rightarrow>
                 (None, call (LOG_error (''Could not request Speech Recognition '' @ m)) c)
             | Inl (ConnectionError m) \<Rightarrow>
                 (let c = call (LOG_error (''Connection Error: '' @ m)) c
                  in (None, emit ''recognizer_loop:no_internet'' None c))
             | Inl (HTTPError code m) \<Rightarrow>
                 (if code = 401
                  then (Some ''pair my device'',
                        call (LOG_warning ''Access Denied at mycroft.ai'') c)
                  else (None, c))
             | Inl e \<Rightarrow>
                 (let c = call (LOG_error (exn_str e)) c;
                      c = call (LOG_error ''Speech Recognition could not understand audio'') c;
                      c = speak env (dialog_get env ''i didn't catch that'' (stt_lang env)) c;
                      payload = [(''utterance'',
                                  Str ''Speech Recognition could not understand audio'')]
                  in (None, emit ''recognizer_loop:speak'' (Some payload) c)))
      in case text of
           None \<Rightarrow> (text, c)
         | Some t \<Rightarrow>
             (if t = [] then (text, c)
              else (let payload = [(''utterances'', StrList [t]),
                                   (''lang'', Str (stt_lang env)),
                                   (''session'', Str (session_id env))]
                    in if emit_flag
                       then (let c = emit ''recognizer_loop:utterance'' (Some payload) c
                             in (text, call (Metrics_attr ''utterances'' [t]) c))
                       else (text, c))))"

text \<open>
  \<open>process\<close>, the awake path. An exception of \<open>_audio_length\<close> leaves the function
  before \<open>self.word\<close> is reset: \<open>Inl\<close> carries it with the consumer as it was then.
\<close>

definition process ::
    "collaborators \<Rightarrow> audio_data \<Rightarrow> audio_consumer \<Rightarrow> exn \<times> audio_consumer + audio_consumer" where
  "process env audio c0 =
     (let c = call SessionManager_touch c0;
          payload = [(''utterance'', Str (word c)), (''session'', Str (session_id env))];
          c = emit ''recognizer_loop:wakeword'' (Some payload) c
      in case audio_length audio of
           Inl e \<Rightarrow> Inl (e, c)
         | Inr len \<Rightarrow>
             (let c = (if len < MIN_AUDIO_SIZE
                       then call (LOG_warning ''Audio too short to be processed'') c
                       else snd (transcribe env audio True c))
              in Inr (c\<lparr>word := key_phrase env\<rparr>)))"

text \<open>\<open>wake_up\<close>, the asleep path.\<close>

definition wake_up ::
    "collaborators \<Rightarrow> audio_data \<Rightarrow> audio_consumer \<Rightarrow> exn \<times> audio_consumer + audio_consumer" where
  "wake_up env audio c0 =
     (let c = call (Found_wake_word (frame_data audio)) c0
      in case found_wake_word env (frame_data audio) of
           Inl e \<Rightarrow> Inl (e, c)
         | Inr found \<Rightarrow>
             (if found
              then (let c = call SessionManager_touch c;
                        c = c\<lparr>state := (state c)\<lparr>sleeping := False\<rparr>\<rparr>;
                        c = speak env (dialog_get env ''i am awake'' (stt_lang env)) c
                    in Inr (call (Metrics_increment ''mycroft.wakeup'') c))
              else Inr c))"

text \<open>
  \<open>read\<close>, given what \<open>queue.get()\<close> returned. \<open>None\<close> returns at once; an exception of
  either path is printed and the consumer goes on.
\<close>

definition read :: "collaborators \<Rightarrow> audio_data option \<Rightarrow> audio_consumer \<Rightarrow> audio_consumer" where
  "read env item c =
     (case item of
        None \<Rightarrow> c
      | Some audio \<Rightarrow>
          (case (if sleeping (state c) then wake_up env audio c else process env audio c) of
             Inr c' \<Rightarrow> c'
           | Inl (e, c') \<Rightarrow> call (Print (exn_str e)) c'))"

subsection \<open>The microphone\<close>

text \<open>
  Modelled from the spec: \<open>MutableMicrophone\<close> of mycroft/client/speech/mic.py, which is
  not among the sources. The spec gives the microphone abstraction the operations
  \<open>mute\<close>, \<open>unmute\<close> and \<open>is_muted\<close>, and the loop constructs it with the flag
  \<open>mute\<close>: a microphone is its muted flag, set by \<open>mute\<close>, cleared by \<open>unmute\<close> and
  read by \<open>is_muted\<close>.
\<close>

record mutable_microphone =
  muted :: bool

definition MutableMicrophone :: "bool \<Rightarrow> mutable_microphone" where
  "MutableMicrophone mute_flag = \<lparr>muted = mute_flag\<rparr>"

definition mic_mute :: "mutable_microphone \<Rightarrow> mutable_microphone" where
  "mic_mute m = m\<lparr>muted := True\<rparr>"

definition mic_unmute :: "mutable_microphone \<Rightarrow> mutable_microphone" where
  "mic_unmute m = m\<lparr>muted := False\<rparr>"

definition mic_is_muted :: "mutable_microphone \<Rightarrow> bool" where
  "mic_is_muted m = muted m"

subsection \<open>RecognizerLoop\<close>

text \<open>
  The loop: the shared state, the count of mute requests, and the microphone (the code
  tests \<open>if self.microphone\<close>, so it may be absent).
\<close>

record recognizer_loop = actor +
  mute_calls :: int
  microphone :: "mutable_microphone option"

text \<open>\<open>__init__\<close> with \<open>_load_config\<close>, as far as these fields go.\<close>

definition RecognizerLoop :: recognizer_loop where
  "RecognizerLoop =
     (let calls = (0 :: int)
      in \<lparr>state = \<lparr>running = False, sleeping = False\<rparr>, trace = [],
          mute_calls = calls, microphone = Some (MutableMicrophone (calls > 0))\<rparr>)"

definition mute :: "recognizer_loop \<Rightarrow> recognizer_loop" where
  "mute l0 =
     (let l = l0\<lparr>mute_calls := mute_calls l0 + 1\<rparr>
      in case microphone l of
           Some m \<Rightarrow> (call Mic_mute l)\<lparr>microphone := Some (mic_mute m)\<rparr>
         | None \<Rightarrow> l)"

definition unmute :: "recognizer_loop \<Rightarrow> recognizer_loop" where
  "unmute l0 =
     (let l = (if mute_calls l0 > 0 then l0\<lparr>mute_calls := mute_calls l0 - 1\<rparr> else l0)
      in case microphone l of
           Some m \<Rightarrow>
             (if mute_calls l \<le> 0
              then (call Mic_unmute l)\<lparr>microphone := Some (mic_unmute m), mute_calls := 0\<rparr>
              else l)
         | None \<Rightarrow> l)"

definition force_unmute :: "recognizer_loop \<Rightarrow> recognizer_loop" where
  "force_unmute l0 = unmute (l0\<lparr>mute_calls := 0\<rparr>)"

definition is_muted :: "recognizer_loop \<Rightarrow> bool" where
  "is_muted l = (case microphone l of Some m \<Rightarrow> mic_is_muted m | None \<Rightarrow> True)"

definition sleep :: "recognizer_loop \<Rightarrow> recognizer_loop" where
  "sleep l = l\<lparr>state := (state l)\<lparr>sleeping := True\<rparr>\<rparr>"

definition awaken :: "recognizer_loop \<Rightarrow> recognizer_loop" where
  "awaken l = l\<lparr>state := (state l)\<lparr>sleeping := False\<rparr>\<rparr>"

text \<open>A sequence of calls of \<open>mute\<close> and \<open>unmute\<close>, made one after the other.\<close>

datatype mute_call = Mute | Unmute

fun mute_step :: "mute_call \<Rightarrow> recognizer_loop \<Rightarrow> recognizer_loop" where
  "mute_step Mute l = mute l"
| "mute_step Unmute l = unmute l"

fun run_calls :: "mute_call list \<Rightarrow> recognizer_loop \<Rightarrow> recognizer_loop" where
  "run_calls [] l = l"
| "run_calls (x # xs) l = run_calls xs (mute_step x l)"

subsection \<open>Reading a trace\<close>

text \<open>
  What a call added to the trace, and what that part holds: the events emitted (name and
  payload), the payloads of the events of one name, the buffers the speech-to-text engine
  was called with, the metrics recorded, and the error lines logged.
\<close>

definition new_trace :: "'a actor_scheme \<Rightarrow> 'b actor_scheme \<Rightarrow> effect list" where
  "new_trace c0 c = drop (length (trace c0)) (trace c)"

definition events :: "effect list \<Rightarrow> (string \<times> payload option) list" where
  "events es = [(n, p). Emit n p \<leftarrow> es]"

definition emitted :: "string \<Rightarrow> effect list \<Rightarrow> payload option list" where
  "emitted name es = [p. (n, p) \<leftarrow> events es, n = name]"

definition stt_calls :: "effect list \<Rightarrow> audio_data list" where
  "stt_calls es = [a. STT_execute a \<leftarrow> es]"

definition metrics :: "effect list \<Rightarrow> effect list" where
  "metrics es =
     [e. e \<leftarrow> es,
         (case e of Metrics_increment _ \<Rightarrow> True | Metrics_attr _ _ \<Rightarrow> True | _ \<Rightarrow> False)]"

definition errors_logged :: "effect list \<Rightarrow> string list" where
  "errors_logged es = [m. LOG_error m \<leftarrow> es]"

text \<open>
  The failures that reach the last clause of \<open>transcribe\<close>, \<open>except Exception\<close>: those
  that are none of \<open>sr.RequestError\<close>, \<open>ConnectionError\<close> and \<open>HTTPError\<close>.
\<close>

fun unclassified :: "exn \<Rightarrow> bool" where
  "unclassified (RequestError m) = False"
| "unclassified (ConnectionError m) = False"
| "unclassified (HTTPError code m) = False"
| "unclassified (ZeroDivisionError m) = True"
| "unclassified (OtherError m) = True"

text \<open>
  The buffer's duration as the specification words it:
  \<open>sample_count / (sample_rate \<times> sample_width)\<close>.
\<close>

definition duration :: "audio_data \<Rightarrow> rat" where
  "duration audio =
     of_nat (length (frame_data audio)) / of_int (sample_rate audio * sample_width audio)"

text \<open>The wake-up recognizer's calls, and the consumer a call of a path leaves behind.\<close>

definition detector_calls :: "effect list \<Rightarrow> string list" where
  "detector_calls es = [d. Found_wake_word d \<leftarrow> es]"

definition after :: "exn \<times> audio_consumer + audio_consumer \<Rightarrow> audio_consumer" where
  "after r = (case r of Inl (e, c) \<Rightarrow> c | Inr c \<Rightarrow> c)"

text \<open>
  The sum the specification forms over a sequence of calls, \<open>+1\<close> for a \<open>mute\<close> and
  \<open>-1\<close> for an \<open>unmute\<close>, and the lowest value this sum takes over the prefixes of the
  sequence, the empty prefix included.
\<close>

fun delta :: "mute_call \<Rightarrow> int" where
  "delta Mute = 1"
| "delta Unmute = - 1"

definition net :: "mute_call list \<Rightarrow> int" where
  "net ops = sum_list (map delta ops)"

definition lowest :: "mute_call list \<Rightarrow> int" where
  "lowest ops = Min (set (map (\<lambda>n. net (take n ops)) [0..<Suc (length ops)]))"

text \<open>
  The invariant of the mute count: it is not negative, and the microphone, when there is
  one, is muted exactly when the count is positive.
\<close>

definition consistent :: "recognizer_loop \<Rightarrow> bool" where
  "consistent l =
     (0 \<le> mute_calls l \<and>
      (case microphone l of Some m \<Rightarrow> muted m = (0 < mute_calls l) | None \<Rightarrow> True))"


section \<open>Properties\<close>

subsection \<open>Auxiliary facts\<close>

lemma new_trace_append: "new_trace c (c\<lparr>trace := trace c @ es\<rparr>) = es"
  by (simp add: new_trace_def)

lemma strip_lower_pair: "strip (lower ''pair my device'') = ''pair my device''"
  by (simp add: strip_def lower_def lower_char_def is_space_def)

lemma transcribe_calls_engine_once:
  "\<exists>es. trace (snd (transcribe env audio emit_flag c)) =
          trace c @ LOG_debug ''Transcribing audio'' # STT_execute audio # es
        \<and> stt_calls es = []"
proof (cases "stt_execute env audio")
  case (Inr s)
  then show ?thesis
    by (simp add: transcribe_def call_def emit_def Let_def stt_calls_def)
next
  case (Inl e)
  then show ?thesis
    by (cases e) (simp_all add: transcribe_def call_def emit_def speak_def Let_def stt_calls_def)
qed

subsection \<open>The mute count along a sequence of calls\<close>

lemma consistent_step: "consistent l \<Longrightarrow> consistent (mute_step x l)"
  by (cases x)
     (auto simp: consistent_def mute_def unmute_def call_def mic_mute_def mic_unmute_def Let_def
           split: option.splits)

lemma mute_calls_step:
  "0 \<le> mute_calls l \<Longrightarrow> mute_calls (mute_step x l) = max 0 (mute_calls l + delta x)"
  by (cases x)
     (auto simp: mute_def unmute_def call_def Let_def split: option.splits)

lemma microphone_step: "(microphone (mute_step x l) = None) = (microphone l = None)"
  by (cases x)
     (auto simp: mute_def unmute_def call_def Let_def split: option.splits)

lemma run_calls_append: "run_calls (xs @ ys) l = run_calls ys (run_calls xs l)"
  by (induction xs arbitrary: l) simp_all

lemma consistent_run: "consistent l \<Longrightarrow> consistent (run_calls xs l)"
  by (induction xs arbitrary: l) (simp_all add: consistent_step)

lemma net_snoc: "net (xs @ [x]) = net xs + delta x"
  by (simp add: net_def)

lemma lowest_image: "lowest ops = Min ((\<lambda>n. net (take n ops)) ` {0..length ops})"
  unfolding lowest_def by (simp only: set_map set_upt atLeastLessThanSuc_atLeastAtMost)

lemma lowest_snoc: "lowest (xs @ [x]) = min (net (xs @ [x])) (lowest xs)"
proof -
  have same: "(\<lambda>n. net (take n (xs @ [x]))) ` {0..length xs} =
        (\<lambda>n. net (take n xs)) ` {0..length xs}"
    by (rule image_cong) auto
  have "{0..length (xs @ [x])} = insert (Suc (length xs)) {0..length xs}"
    by (simp add: atLeastAtMostSuc_conv)
  then have "(\<lambda>n. net (take n (xs @ [x]))) ` {0..length (xs @ [x])} =
        insert (net (xs @ [x])) ((\<lambda>n. net (take n xs)) ` {0..length xs})"
    using same by simp
  then show ?thesis
    by (simp add: lowest_image)
qed

lemma lowest_Nil: "lowest [] = 0"
  by (simp add: lowest_def net_def)

lemma count_closed_form:
  assumes "consistent l" and "mute_calls l = 0"
  shows "mute_calls (run_calls ops l) = net ops - lowest ops"
proof (induction ops rule: rev_induct)
  case Nil
  then show ?case using assms by (simp add: lowest_Nil net_def)
next
  case (snoc x xs)
  have "0 \<le> mute_calls (run_calls xs l)"
    using consistent_run [OF assms(1)] by (simp add: consistent_def)
  then have "mute_calls (run_calls (xs @ [x]) l) = max 0 (mute_calls (run_calls xs l) + delta x)"
    by (simp add: run_calls_append mute_calls_step)
  then show ?case
    by (simp add: snoc.IH lowest_snoc net_snoc min_def max_def)
qed

lemma lowest_le_prefix: "n \<le> length ops \<Longrightarrow> lowest ops \<le> net (take n ops)"
  unfolding lowest_image by (rule Min_le) auto

lemma lowest_nonneg_prefixes:
  assumes "\<forall>n\<le>length ops. 0 \<le> net (take n ops)"
  shows "lowest ops = 0"
proof -
  have "lowest ops \<le> net (take 0 ops)" by (rule lowest_le_prefix) simp
  then have le: "lowest ops \<le> 0" by (simp add: net_def)
  have "lowest ops \<in> (\<lambda>n. net (take n ops)) ` {0..length ops}"
    unfolding lowest_image by (rule Min_in) auto
  then have "0 \<le> lowest ops" using assms by auto
  with le show ?thesis by simp
qed

subsection \<open>Transcription outcomes\<close>

text \<open>
  C3, evaluated on the code: an \<open>HTTPError\<close> whose status code is 500 is a transcription
  failure that is neither a request rejection, nor a connectivity failure, nor an
  authentication failure. \<open>transcribe\<close> catches it in the \<open>HTTPError\<close> clause, whose test
  for 401 fails, and does nothing more: the trace gains the debug line and the call of the
  engine only, so no error is logged and no \<open>speak\<close> event is emitted, where the claim
  asks for both.
\<close>

theorem transcribe_http_error_not_401:
  "transcribe (env\<lparr>stt_execute := \<lambda>a. Inl (HTTPError 500 m)\<rparr>) audio emit_flag c =
     (None, c\<lparr>trace := trace c @ [LOG_debug ''Transcribing audio'', STT_execute audio]\<rparr>)
   \<and> errors_logged (new_trace c (snd (transcribe
        (env\<lparr>stt_execute := \<lambda>a. Inl (HTTPError 500 m)\<rparr>) audio emit_flag c))) = []
   \<and> events (new_trace c (snd (transcribe
        (env\<lparr>stt_execute := \<lambda>a. Inl (HTTPError 500 m)\<rparr>) audio emit_flag c))) = []"
proof -
  have run: "transcribe (env\<lparr>stt_execute := \<lambda>a. Inl (HTTPError 500 m)\<rparr>) audio emit_flag c =
     (None, c\<lparr>trace := trace c @ [LOG_debug ''Transcribing audio'', STT_execute audio]\<rparr>)"
    by (simp add: transcribe_def call_def emit_def)
  show ?thesis
    unfolding run by (simp add: new_trace_append events_def errors_logged_def)
qed

text \<open>
  C4: when the call of the engine raises an \<open>HTTPError\<close> whose status code is 401,
  \<open>transcribe\<close> (called as \<open>process\<close> calls it, with \<open>emit\<close> true) returns the text
  ``pair my device'' and emits exactly one event, \<open>recognizer_loop:utterance\<close>, whose payload
  holds the utterances \<open>[''pair my device'']\<close>, the engine's language and the current session
  id; the events and the returned text are those of a run in which the engine returned
  ``pair my device''.
\<close>

theorem transcribe_unauthorized:
  assumes "stt_execute env audio = Inl (HTTPError 401 m)"
  shows "transcribe env audio True c =
           (Some ''pair my device'', c\<lparr>trace := trace c @
              [LOG_debug ''Transcribing audio'', STT_execute audio,
               LOG_warning ''Access Denied at mycroft.ai'',
               Emit ''recognizer_loop:utterance''
                 (Some [(''utterances'', StrList [''pair my device'']),
                        (''lang'', Str (stt_lang env)),
                        (''session'', Str (session_id env))]),
               Metrics_attr ''utterances'' [''pair my device'']]\<rparr>)
         \<and> events (new_trace c (snd (transcribe env audio True c))) =
             [(''recognizer_loop:utterance'',
               Some [(''utterances'', StrList [''pair my device'']),
                     (''lang'', Str (stt_lang env)),
                     (''session'', Str (session_id env))])]
         \<and> events (new_trace c (snd (transcribe env audio True c))) =
             events (new_trace c (snd (transcribe
               (env\<lparr>stt_execute := \<lambda>a. Inr ''pair my device''\<rparr>) audio True c)))
         \<and> fst (transcribe env audio True c) =
             fst (transcribe (env\<lparr>stt_execute := \<lambda>a. Inr ''pair my device''\<rparr>) audio True c)"
proof -
  have run: "transcribe env audio True c =
           (Some ''pair my device'', c\<lparr>trace := trace c @
              [LOG_debug ''Transcribing audio'', STT_execute audio,
               LOG_warning ''Access Denied at mycroft.ai'',
               Emit ''recognizer_loop:utterance''
                 (Some [(''utterances'', StrList [''pair my device'']),
                        (''lang'', Str (stt_lang env)),
                        (''session'', Str (session_id env))]),
               Metrics_attr ''utterances'' [''pair my device'']]\<rparr>)"
    using assms by (simp add: transcribe_def call_def emit_def)
  have ok: "transcribe (env\<lparr>stt_execute := \<lambda>a. Inr ''pair my device''\<rparr>) audio True c =
           (Some ''pair my device'', c\<lparr>trace := trace c @
              [LOG_debug ''Transcribing audio'', STT_execute audio,
               LOG_debug ''STT: pair my device'',
               Emit ''recognizer_loop:utterance''
                 (Some [(''utterances'', StrList [''pair my device'']),
                        (''lang'', Str (stt_lang env)),
                        (''session'', Str (session_id env))]),
               Metrics_attr ''utterances'' [''pair my device'']]\<rparr>)"
    by (simp add: transcribe_def call_def emit_def strip_lower_pair Let_def)
  show ?thesis
    unfolding run ok by (simp add: new_trace_append events_def)
qed

theorem transcribe_unauthorized_witness:
  "let env = \<lparr>stt_execute = (\<lambda>a. Inl (HTTPError 401 ''Unauthorized'')), stt_lang = ''en-us'',
              found_wake_word = (\<lambda>d. Inr False), key_phrase = ''hey mycroft'',
              dialog_get = (\<lambda>k l. k), session_id = ''s1''\<rparr>;
       audio = \<lparr>frame_data = ''abcd'', sample_rate = 4, sample_width = 1\<rparr>;
       c = \<lparr>state = \<lparr>running = True, sleeping = False\<rparr>, trace = [], word = ''hey mycroft''\<rparr>
   in stt_execute env audio = Inl (HTTPError 401 ''Unauthorized'')
      \<and> events (new_trace c (snd (transcribe env audio True c))) =
            [(''recognizer_loop:utterance'',
              Some [(''utterances'', StrList [''pair my device'']),
                    (''lang'', Str (stt_lang env)),
                    (''session'', Str (session_id env))])]"
proof -
  let ?env = "\<lparr>stt_execute = (\<lambda>a. Inl (HTTPError 401 ''Unauthorized'')), stt_lang = ''en-us'',
              found_wake_word = (\<lambda>d. Inr False), key_phrase = ''hey mycroft'',
              dialog_get = (\<lambda>k l. k), session_id = ''s1''\<rparr>"
  let ?audio = "\<lparr>frame_data = ''abcd'', sample_rate = 4, sample_width = 1\<rparr>"
  let ?c = "\<lparr>state = \<lparr>running = True, sleeping = False\<rparr>, trace = [], word = ''hey mycroft''\<rparr>"
  have h1: "stt_execute ?env ?audio = Inl (HTTPError 401 ''Unauthorized'')"
    by simp
  show ?thesis
    unfolding Let_def
    using h1 transcribe_unauthorized [OF h1, where c = ?c]
    by blast
qed

text \<open>
  C5: when the call of the engine raises a \<open>ConnectionError\<close>, \<open>transcribe\<close> logs the
  error, emits exactly one \<open>recognizer_loop:no_internet\<close> event and no
  \<open>recognizer_loop:utterance\<close> event, and has called the engine exactly once.
\<close>

theorem transcribe_connection_error:
  assumes "stt_execute env audio = Inl (ConnectionError m)"
  shows "transcribe env audio emit_flag c =
           (None, c\<lparr>trace := trace c @
              [LOG_debug ''Transcribing audio'', STT_execute audio,
               LOG_error (''Connection Error: '' @ m),
               Emit ''recognizer_loop:no_internet'' None]\<rparr>)
         \<and> errors_logged (new_trace c (snd (transcribe env audio emit_flag c))) =
             [''Connection Error: '' @ m]
         \<and> emitted ''recognizer_loop:no_internet''
             (new_trace c (snd (transcribe env audio emit_flag c))) = [None]
         \<and> emitted ''recognizer_loop:utterance''
             (new_trace c (snd (transcribe env audio emit_flag c))) = []
         \<and> stt_calls (new_trace c (snd (transcribe env audio emit_flag c))) = [audio]"
proof -
  have run: "transcribe env audio emit_flag c =
           (None, c\<lparr>trace := trace c @
              [LOG_debug ''Transcribing audio'', STT_execute audio,
               LOG_error (''Connection Error: '' @ m),
               Emit ''recognizer_loop:no_internet'' None]\<rparr>)"
    using assms by (simp add: transcribe_def call_def emit_def)
  show ?thesis
    unfolding run
    by (simp add: new_trace_append errors_logged_def emitted_def events_def stt_calls_def)
qed

theorem transcribe_connection_error_witness:
  "let env = \<lparr>stt_execute = (\<lambda>a. Inl (ConnectionError ''unreachable'')), stt_lang = ''en-us'',
              found_wake_word = (\<lambda>d. Inr False), key_phrase = ''hey mycroft'',
              dialog_get = (\<lambda>k l. k), session_id = ''s1''\<rparr>;
       audio = \<lparr>frame_data = ''abcd'', sample_rate = 4, sample_width = 1\<rparr>;
       c = \<lparr>state = \<lparr>running = True, sleeping = False\<rparr>, trace = [], word = ''hey mycroft''\<rparr>
   in stt_execute env audio = Inl (ConnectionError ''unreachable'')
      \<and> emitted ''recognizer_loop:no_internet'' (new_trace c (snd (transcribe env audio True c)))
          = [None]
      \<and> stt_calls (new_trace c (snd (transcribe env audio True c))) = [audio]"
proof -
  let ?env = "\<lparr>stt_execute = (\<lambda>a. Inl (ConnectionError ''unreachable'')), stt_lang = ''en-us'',
              found_wake_word = (\<lambda>d. Inr False), key_phrase = ''hey mycroft'',
              dialog_get = (\<lambda>k l. k), session_id = ''s1''\<rparr>"
  let ?audio = "\<lparr>frame_data = ''abcd'', sample_rate = 4, sample_width = 1\<rparr>"
  let ?c = "\<lparr>state = \<lparr>running = True, sleeping = False\<rparr>, trace = [], word = ''hey mycroft''\<rparr>"
  have h1: "stt_execute ?env ?audio = Inl (ConnectionError ''unreachable'')"
    by simp
  show ?thesis
    unfolding Let_def
    using h1 transcribe_connection_error [OF h1, where emit_flag = True and c = ?c]
    by blast
qed

text \<open>
  C9: when the engine returns and the text is empty after lowercasing and stripping,
  \<open>transcribe\<close> emits no event at all (so neither \<open>recognizer_loop:utterance\<close> nor
  \<open>speak\<close>) and records no metric; the trace gains two debug lines and the call of the
  engine, and the function returns the empty string.
\<close>

theorem transcribe_empty_text:
  assumes "stt_execute env audio = Inr s" and "strip (lower s) = []"
  shows "transcribe env audio emit_flag c =
           (Some [], c\<lparr>trace := trace c @
              [LOG_debug ''Transcribing audio'', STT_execute audio, LOG_debug ''STT: '']\<rparr>)
         \<and> events (new_trace c (snd (transcribe env audio emit_flag c))) = []
         \<and> metrics (new_trace c (snd (transcribe env audio emit_flag c))) = []"
proof -
  have run: "transcribe env audio emit_flag c =
           (Some [], c\<lparr>trace := trace c @
              [LOG_debug ''Transcribing audio'', STT_execute audio, LOG_debug ''STT: '']\<rparr>)"
    using assms by (simp add: transcribe_def call_def emit_def)
  show ?thesis
    unfolding run by (simp add: new_trace_append events_def metrics_def)
qed

theorem transcribe_empty_text_witness:
  "let env = \<lparr>stt_execute = (\<lambda>a. Inr ''  ''), stt_lang = ''en-us'',
              found_wake_word = (\<lambda>d. Inr False), key_phrase = ''hey mycroft'',
              dialog_get = (\<lambda>k l. k), session_id = ''s1''\<rparr>;
       audio = \<lparr>frame_data = ''abcd'', sample_rate = 4, sample_width = 1\<rparr>;
       c = \<lparr>state = \<lparr>running = True, sleeping = False\<rparr>, trace = [], word = ''hey mycroft''\<rparr>
   in stt_execute env audio = Inr ''  ''
      \<and> strip (lower ''  '') = []
      \<and> events (new_trace c (snd (transcribe env audio True c))) = []
      \<and> metrics (new_trace c (snd (transcribe env audio True c))) = []"
proof -
  let ?env = "\<lparr>stt_execute = (\<lambda>a. Inr ''  ''), stt_lang = ''en-us'',
              found_wake_word = (\<lambda>d. Inr False), key_phrase = ''hey mycroft'',
              dialog_get = (\<lambda>k l. k), session_id = ''s1''\<rparr>"
  let ?audio = "\<lparr>frame_data = ''abcd'', sample_rate = 4, sample_width = 1\<rparr>"
  let ?c = "\<lparr>state = \<lparr>running = True, sleeping = False\<rparr>, trace = [], word = ''hey mycroft''\<rparr>"
  have h1: "stt_execute ?env ?audio = Inr ''  ''"
    by simp
  have h2: "strip (lower ''  '') = []"
    by (simp add: strip_def lower_def lower_char_def is_space_def)
  show ?thesis
    unfolding Let_def
    using h1 h2 transcribe_empty_text [OF h1 h2, where emit_flag = True and c = ?c]
    by blast
qed

text \<open>
  C10: when the call of the engine raises a failure that reaches \<open>except Exception\<close>,
  \<open>transcribe\<close> emits exactly two events: \<open>speak\<close>, whose payload holds the dialog
  ``i didn't catch that'' in the engine's language and the current session id, and then
  \<open>recognizer_loop:speak\<close>, whose payload holds only the utterance
  ``Speech Recognition could not understand audio'', with no session. Two error lines are
  logged and the function returns \<open>None\<close>.
\<close>

theorem transcribe_unclassified_failure:
  assumes "stt_execute env audio = Inl e" and "unclassified e"
  shows "events (new_trace c (snd (transcribe env audio emit_flag c))) =
           [(''speak'',
             Some [(''utterance'', Str (dialog_get env ''i didn't catch that'' (stt_lang env))),
                   (''session'', Str (session_id env))]),
            (''recognizer_loop:speak'',
             Some [(''utterance'', Str ''Speech Recognition could not understand audio'')])]
         \<and> errors_logged (new_trace c (snd (transcribe env audio emit_flag c))) =
             [exn_str e, ''Speech Recognition could not understand audio'']
         \<and> fst (transcribe env audio emit_flag c) = None"
proof -
  have run: "transcribe env audio emit_flag c =
           (None, c\<lparr>trace := trace c @
              [LOG_debug ''Transcribing audio'', STT_execute audio,
               LOG_error (exn_str e),
               LOG_error ''Speech Recognition could not understand audio'',
               Emit ''speak''
                 (Some [(''utterance'', Str (dialog_get env ''i didn't catch that'' (stt_lang env))),
                        (''session'', Str (session_id env))]),
               Emit ''recognizer_loop:speak''
                 (Some [(''utterance'', Str ''Speech Recognition could not understand audio'')])]\<rparr>)"
    using assms by (cases e) (simp_all add: transcribe_def call_def emit_def speak_def)
  show ?thesis
    unfolding run by (simp add: new_trace_append events_def errors_logged_def)
qed

theorem transcribe_unclassified_failure_witness:
  "let env = \<lparr>stt_execute = (\<lambda>a. Inl (OtherError ''unknown value'')), stt_lang = ''en-us'',
              found_wake_word = (\<lambda>d. Inr False), key_phrase = ''hey mycroft'',
              dialog_get = (\<lambda>k l. k), session_id = ''s1''\<rparr>;
       audio = \<lparr>frame_data = ''abcd'', sample_rate = 4, sample_width = 1\<rparr>;
       c = \<lparr>state = \<lparr>running = True, sleeping = False\<rparr>, trace = [], word = ''hey mycroft''\<rparr>
   in stt_execute env audio = Inl (OtherError ''unknown value'')
      \<and> unclassified (OtherError ''unknown value'')
      \<and> events (new_trace c (snd (transcribe env audio True c))) =
            [(''speak'',
              Some [(''utterance'', Str (dialog_get env ''i didn't catch that'' (stt_lang env))),
                    (''session'', Str (session_id env))]),
             (''recognizer_loop:speak'',
              Some [(''utterance'', Str ''Speech Recognition could not understand audio'')])]"
proof -
  let ?env = "\<lparr>stt_execute = (\<lambda>a. Inl (OtherError ''unknown value'')), stt_lang = ''en-us'',
              found_wake_word = (\<lambda>d. Inr False), key_phrase = ''hey mycroft'',
              dialog_get = (\<lambda>k l. k), session_id = ''s1''\<rparr>"
  let ?audio = "\<lparr>frame_data = ''abcd'', sample_rate = 4, sample_width = 1\<rparr>"
  let ?c = "\<lparr>state = \<lparr>running = True, sleeping = False\<rparr>, trace = [], word = ''hey mycroft''\<rparr>"
  have h1: "stt_execute ?env ?audio = Inl (OtherError ''unknown value'')"
    by simp
  have h2: "unclassified (OtherError ''unknown value'')"
    by simp
  show ?thesis
    unfolding Let_def
    using h1 h2 transcribe_unclassified_failure [OF h1 h2, where emit_flag = True and c = ?c]
    by blast
qed

subsection \<open>The awake and the asleep path\<close>

text \<open>
  C6: for a buffer on the awake path (\<open>process\<close>) whose sample rate times sample width is
  not zero, so that its duration \<open>sample_count / (sample_rate \<times> sample_width)\<close> is defined:
  if the duration is below 0.5 seconds, the buffer is logged as too short and dropped, and
  the speech-to-text engine is not called; otherwise the buffer is passed to \<open>transcribe\<close>,
  which calls the engine with it once. The quotient is the exact one; the code forms it in
  floating point, which gives the same comparison with 0.5 for every product below
  \<open>2\<^sup>5\<^sup>3\<close>.
\<close>

theorem process_screens_length:
  assumes "sample_rate audio * sample_width audio \<noteq> 0"
  shows "(duration audio < 1 / 2 \<longrightarrow>
            process env audio c =
              Inr (c\<lparr>trace := trace c @
                     [SessionManager_touch,
                      Emit ''recognizer_loop:wakeword''
                        (Some [(''utterance'', Str (word c)), (''session'', Str (session_id env))]),
                      LOG_warning ''Audio too short to be processed''],
                    word := key_phrase env\<rparr>)
            \<and> stt_calls (new_trace c (after (process env audio c))) = [])
       \<and> (\<not> duration audio < 1 / 2 \<longrightarrow>
            process env audio c =
              Inr ((snd (transcribe env audio True
                      (c\<lparr>trace := trace c @
                         [SessionManager_touch,
                          Emit ''recognizer_loop:wakeword''
                            (Some [(''utterance'', Str (word c)),
                                   (''session'', Str (session_id env))])]\<rparr>)))
                   \<lparr>word := key_phrase env\<rparr>)
            \<and> stt_calls (new_trace c (after (process env audio c))) = [audio])"
proof -
  let ?c1 = "c\<lparr>trace := trace c @
                     [SessionManager_touch,
                      Emit ''recognizer_loop:wakeword''
                        (Some [(''utterance'', Str (word c)), (''session'', Str (session_id env))])]\<rparr>"
  have len: "audio_length audio = Inr (duration audio)"
    using assms by (simp add: audio_length_def duration_def Let_def)
  have short: "process env audio c =
              Inr (c\<lparr>trace := trace c @
                     [SessionManager_touch,
                      Emit ''recognizer_loop:wakeword''
                        (Some [(''utterance'', Str (word c)), (''session'', Str (session_id env))]),
                      LOG_warning ''Audio too short to be processed''],
                    word := key_phrase env\<rparr>)" if "duration audio < 1 / 2"
    using that by (simp add: process_def len MIN_AUDIO_SIZE_def call_def emit_def Let_def)
  have long: "process env audio c =
                Inr ((snd (transcribe env audio True ?c1))\<lparr>word := key_phrase env\<rparr>)"
    if "\<not> duration audio < 1 / 2"
    using that by (simp add: process_def len MIN_AUDIO_SIZE_def call_def emit_def Let_def)
  have calls: "stt_calls (new_trace c
                 ((snd (transcribe env audio True ?c1))\<lparr>word := key_phrase env\<rparr>)) = [audio]"
  proof -
    obtain es where t: "trace (snd (transcribe env audio True ?c1)) =
          trace ?c1 @ LOG_debug ''Transcribing audio'' # STT_execute audio # es"
     and e: "stt_calls es = []"
      using transcribe_calls_engine_once by blast
    show ?thesis using e by (simp add: new_trace_def t stt_calls_def)
  qed
  show ?thesis
  proof (cases "duration audio < 1 / 2")
    case True
    then show ?thesis using short by (simp add: new_trace_def stt_calls_def after_def)
  next
    case False
    then show ?thesis using long calls by (simp add: after_def)
  qed
qed

theorem process_screens_length_witness:
  "let env = \<lparr>stt_execute = (\<lambda>a. Inr ''What time is it''), stt_lang = ''en-us'',
              found_wake_word = (\<lambda>d. Inr False), key_phrase = ''hey mycroft'',
              dialog_get = (\<lambda>k l. k), session_id = ''s1''\<rparr>;
       short = \<lparr>frame_data = ''a'', sample_rate = 4, sample_width = 1\<rparr>;
       long = \<lparr>frame_data = ''abcd'', sample_rate = 4, sample_width = 1\<rparr>;
       c = \<lparr>state = \<lparr>running = True, sleeping = False\<rparr>, trace = [], word = ''hey mycroft''\<rparr>
   in sample_rate short * sample_width short \<noteq> 0 \<and> duration short < 1 / 2
      \<and> stt_calls (new_trace c (after (process env short c))) = []
      \<and> sample_rate long * sample_width long \<noteq> 0 \<and> \<not> duration long < 1 / 2
      \<and> stt_calls (new_trace c (after (process env long c))) = [long]"
proof -
  let ?env = "\<lparr>stt_execute = (\<lambda>a. Inr ''What time is it''), stt_lang = ''en-us'',
              found_wake_word = (\<lambda>d. Inr False), key_phrase = ''hey mycroft'',
              dialog_get = (\<lambda>k l. k), session_id = ''s1''\<rparr>"
  let ?short = "\<lparr>frame_data = ''a'', sample_rate = 4, sample_width = 1\<rparr>"
  let ?long = "\<lparr>frame_data = ''abcd'', sample_rate = 4, sample_width = 1\<rparr>"
  let ?c = "\<lparr>state = \<lparr>running = True, sleeping = False\<rparr>, trace = [], word = ''hey mycroft''\<rparr>"
  have s1: "sample_rate ?short * sample_width ?short \<noteq> 0" by simp
  have s2: "duration ?short < 1 / 2" by (simp add: duration_def)
  have l1: "sample_rate ?long * sample_width ?long \<noteq> 0" by simp
  have l2: "\<not> duration ?long < 1 / 2" by (simp add: duration_def)
  show ?thesis
    unfolding Let_def
    using s1 s2 l1 l2
      process_screens_length [OF s1, where env = ?env and c = ?c]
      process_screens_length [OF l1, where env = ?env and c = ?c]
    by blast
qed

text \<open>
  C7: for a buffer taken off the queue while \<open>sleeping\<close> is true, \<open>read\<close> runs
  \<open>wake_up\<close> and nothing of \<open>process\<close>: the wake-up recognizer is consulted once, with
  the buffer's data, no \<open>recognizer_loop:wakeword\<close> event is emitted, no ``too short'' line
  is logged, the speech-to-text engine is not called, and the pending hot word is left as
  it was.
\<close>

theorem read_asleep:
  assumes "sleeping (state c)"
  shows "read env (Some audio) c =
           (case wake_up env audio c of
              Inr c' \<Rightarrow> c'
            | Inl (e, c') \<Rightarrow> call (Print (exn_str e)) c')
       \<and> detector_calls (new_trace c (read env (Some audio) c)) = [frame_data audio]
       \<and> emitted ''recognizer_loop:wakeword'' (new_trace c (read env (Some audio) c)) = []
       \<and> LOG_warning ''Audio too short to be processed''
            \<notin> set (new_trace c (read env (Some audio) c))
       \<and> stt_calls (new_trace c (read env (Some audio) c)) = []
       \<and> word (read env (Some audio) c) = word c"
proof (cases "found_wake_word env (frame_data audio)")
  case (Inl e)
  then show ?thesis
    using assms
    by (simp add: read_def wake_up_def call_def new_trace_def detector_calls_def
          emitted_def events_def stt_calls_def)
next
  case (Inr found)
  then show ?thesis
    using assms
    by (cases found)
       (simp_all add: read_def wake_up_def call_def emit_def speak_def new_trace_def
          detector_calls_def emitted_def events_def stt_calls_def Let_def)
qed

theorem read_asleep_witness:
  "let env = \<lparr>stt_execute = (\<lambda>a. Inr ''What time is it''), stt_lang = ''en-us'',
              found_wake_word = (\<lambda>d. Inr True), key_phrase = ''hey mycroft'',
              dialog_get = (\<lambda>k l. k), session_id = ''s1''\<rparr>;
       audio = \<lparr>frame_data = ''abcd'', sample_rate = 4, sample_width = 1\<rparr>;
       c = \<lparr>state = \<lparr>running = True, sleeping = True\<rparr>, trace = [], word = ''hey mycroft''\<rparr>
   in sleeping (state c)
      \<and> detector_calls (new_trace c (read env (Some audio) c)) = [frame_data audio]
      \<and> emitted ''recognizer_loop:wakeword'' (new_trace c (read env (Some audio) c)) = []
      \<and> stt_calls (new_trace c (read env (Some audio) c)) = []"
proof -
  let ?env = "\<lparr>stt_execute = (\<lambda>a. Inr ''What time is it''), stt_lang = ''en-us'',
              found_wake_word = (\<lambda>d. Inr True), key_phrase = ''hey mycroft'',
              dialog_get = (\<lambda>k l. k), session_id = ''s1''\<rparr>"
  let ?audio = "\<lparr>frame_data = ''abcd'', sample_rate = 4, sample_width = 1\<rparr>"
  let ?c = "\<lparr>state = \<lparr>running = True, sleeping = True\<rparr>, trace = [], word = ''hey mycroft''\<rparr>"
  have h: "sleeping (state ?c)" by simp
  show ?thesis
    unfolding Let_def
    using h read_asleep [OF h, where env = ?env and audio = ?audio]
    by blast
qed

subsection \<open>Muting\<close>

text \<open>
  C2, as the code has it: starting from count 0 with the microphone (if there is one) not
  muted, after any sequence of \<open>mute\<close> and \<open>unmute\<close> calls the count is the sum of
  \<open>+1\<close> per \<open>mute\<close> and \<open>-1\<close> per \<open>unmute\<close> minus the lowest value that sum took
  over the prefixes of the sequence: the floor at zero is applied at each \<open>unmute\<close>, not
  once to the total. The count is \<open>max(0, sum)\<close> when no prefix has a negative sum. It
  is never negative after any prefix, and \<open>is_muted\<close> is true exactly when the count is
  positive or there is no microphone.
\<close>

theorem mute_count_of_calls:
  assumes "mute_calls l = 0" and "map_option muted (microphone l) \<noteq> Some True"
  shows "mute_calls (run_calls ops l) = net ops - lowest ops
       \<and> ((\<forall>n\<le>length ops. 0 \<le> net (take n ops)) \<longrightarrow>
            mute_calls (run_calls ops l) = max 0 (net ops))
       \<and> (\<forall>n\<le>length ops. 0 \<le> mute_calls (run_calls (take n ops) l))
       \<and> is_muted (run_calls ops l) =
           (0 < mute_calls (run_calls ops l) \<or> microphone (run_calls ops l) = None)"
proof -
  have c: "consistent l"
    using assms by (auto simp: consistent_def split: option.splits)
  have closed: "mute_calls (run_calls ops l) = net ops - lowest ops"
    by (rule count_closed_form [OF c assms(1)])
  have clamp: "mute_calls (run_calls ops l) = max 0 (net ops)"
    if "\<forall>n\<le>length ops. 0 \<le> net (take n ops)"
  proof -
    have "0 \<le> net (take (length ops) ops)" using that by blast
    then show ?thesis using closed lowest_nonneg_prefixes [OF that] by simp
  qed
  have nonneg: "0 \<le> mute_calls (run_calls xs l)" for xs
    using consistent_run [OF c, of xs] by (simp add: consistent_def)
  have muted: "is_muted (run_calls ops l) =
           (0 < mute_calls (run_calls ops l) \<or> microphone (run_calls ops l) = None)"
    using consistent_run [OF c, of ops]
    by (auto simp: consistent_def is_muted_def mic_is_muted_def split: option.splits)
  show ?thesis using closed clamp nonneg muted by blast
qed

theorem mute_count_of_calls_witness:
  "mute_calls RecognizerLoop = 0
   \<and> map_option muted (microphone RecognizerLoop) \<noteq> Some True
   \<and> mute_calls (run_calls [Mute, Unmute, Unmute, Mute] RecognizerLoop) =
       net [Mute, Unmute, Unmute, Mute] - lowest [Mute, Unmute, Unmute, Mute]
   \<and> 0 \<le> mute_calls (run_calls (take 3 [Mute, Unmute, Unmute, Mute]) RecognizerLoop)
   \<and> is_muted (run_calls [Mute, Unmute, Unmute, Mute] RecognizerLoop) =
       (0 < mute_calls (run_calls [Mute, Unmute, Unmute, Mute] RecognizerLoop)
        \<or> microphone (run_calls [Mute, Unmute, Unmute, Mute] RecognizerLoop) = None)"
proof -
  have h1: "mute_calls RecognizerLoop = 0"
    by (simp add: RecognizerLoop_def)
  have h2: "map_option muted (microphone RecognizerLoop) \<noteq> Some True"
    by (simp add: RecognizerLoop_def MutableMicrophone_def)
  have n: "(3::nat) \<le> length [Mute, Unmute, Unmute, Mute]" by simp
  note t = mute_count_of_calls [OF h1 h2, of "[Mute, Unmute, Unmute, Mute]"]
  have a: "mute_calls (run_calls [Mute, Unmute, Unmute, Mute] RecognizerLoop) =
       net [Mute, Unmute, Unmute, Mute] - lowest [Mute, Unmute, Unmute, Mute]"
    by (rule t [THEN conjunct1])
  have b: "0 \<le> mute_calls (run_calls (take 3 [Mute, Unmute, Unmute, Mute]) RecognizerLoop)"
    by (rule t [THEN conjunct2, THEN conjunct2, THEN conjunct1, rule_format, OF n])
  have c: "is_muted (run_calls [Mute, Unmute, Unmute, Mute] RecognizerLoop) =
       (0 < mute_calls (run_calls [Mute, Unmute, Unmute, Mute] RecognizerLoop)
        \<or> microphone (run_calls [Mute, Unmute, Unmute, Mute] RecognizerLoop) = None)"
    by (rule t [THEN conjunct2, THEN conjunct2, THEN conjunct2])
  show ?thesis
    by (intro conjI h1 h2 a b c)
qed

text \<open>
  C2 as stated fails: on a fresh loop, \<open>unmute\<close> and then \<open>mute\<close> leave the count at 1,
  while the sum of the two calls is 0 and so is \<open>max(0, sum)\<close>.
\<close>

theorem mute_count_not_clamped_sum:
  "mute_calls (run_calls [Unmute, Mute] RecognizerLoop) = 1
   \<and> max 0 (net [Unmute, Mute]) = 0"
  by (simp add: RecognizerLoop_def MutableMicrophone_def mute_def unmute_def call_def
        mic_mute_def mic_unmute_def net_def Let_def)

text \<open>
  C8: whatever the count was, \<open>force_unmute\<close> leaves it at 0; and when the loop has a
  microphone, it calls the microphone's \<open>unmute\<close> (the one call it makes), after which
  \<open>is_muted\<close> is false.
\<close>

theorem force_unmute_resets:
  "mute_calls (force_unmute l) = 0
   \<and> (microphone l \<noteq> None \<longrightarrow>
        new_trace l (force_unmute l) = [Mic_unmute] \<and> \<not> is_muted (force_unmute l))"
  by (auto simp: force_unmute_def unmute_def call_def new_trace_def is_muted_def
        mic_unmute_def mic_is_muted_def Let_def split: option.splits)

theorem force_unmute_resets_witness:
  "let l = (mute (mute RecognizerLoop))
   in mute_calls l = 2 \<and> microphone l \<noteq> None
      \<and> mute_calls (force_unmute l) = 0
      \<and> new_trace l (force_unmute l) = [Mic_unmute]
      \<and> \<not> is_muted (force_unmute l)"
proof -
  let ?l = "mute (mute RecognizerLoop)"
  have c: "mute_calls ?l = 2"
    by (simp add: RecognizerLoop_def MutableMicrophone_def mute_def call_def mic_mute_def Let_def)
  have m: "microphone ?l \<noteq> None"
    by (simp add: RecognizerLoop_def MutableMicrophone_def mute_def call_def mic_mute_def Let_def)
  show ?thesis
    unfolding Let_def using c m force_unmute_resets [of ?l] by blast
qed

end
